theory Spec2Isabelle
  imports Complex_Main
begin

section \<open>Data model\<close>

text \<open>
  The script \<^verbatim>\<open>src/ml/train_model.py\<close> works on a pandas table read from a
  comma-delimited file. A cell of that table is a number, a piece of text, or
  missing (pandas' NaN). Floating-point numbers are idealised as reals; NaN is the
  separate value \<open>NA\<close>.
\<close>

datatype cell = Num real | Str string | NA

text \<open>
  A table has named columns in file order and rows in file order. A row lists its
  cells in column order.
\<close>

record dataframe =
  columns :: "string list"
  rows :: "cell list list"

text \<open>
  What \<^verbatim>\<open>pd.read_csv\<close> raises on a path that exists and that it cannot read as a
  table: \<^verbatim>\<open>EmptyDataError\<close> on a file without columns, \<^verbatim>\<open>ParserError\<close> on rows of
  differing width, \<^verbatim>\<open>UnicodeDecodeError\<close> on bytes that are not UTF-8, and an
  \<^verbatim>\<open>OSError\<close> on a directory or a file it may not open.
\<close>

datatype read_error = EmptyDataError | ParserError | UnicodeDecodeError | OSError

text \<open>
  The exceptions the script can raise, each named by its own class. \<open>SystemExit n\<close> is
  what \<^verbatim>\<open>sys.exit(n)\<close> raises and \<open>ReadError e\<close> is the exception \<open>e\<close> of
  \<^verbatim>\<open>pd.read_csv\<close>; every uncaught exception ends the process with a non-zero status.
\<close>

datatype error = KeyError | IndexError | ValueError | TypeError | SystemExit nat
  | ReadError read_error

text \<open>
  \<^verbatim>\<open>pd.to_numeric(..., errors='coerce')\<close> turns text into a number where pandas can
  read it as one and into NaN otherwise. The reader of text is pandas' own, so it is a
  parameter of the model.
\<close>

type_synonym parser = "string \<Rightarrow> real option"

type_synonym samples = "real list list \<times> real list"

definition SEQUENCE_LENGTH :: nat where
  "SEQUENCE_LENGTH = 6"

section \<open>Table access\<close>

definition to_numeric :: "parser \<Rightarrow> cell \<Rightarrow> real option" where
  "to_numeric parse c = (case c of Num r \<Rightarrow> Some r | Str s \<Rightarrow> parse s | NA \<Rightarrow> None)"

fun dropna :: "'a option list \<Rightarrow> 'a list" where
  "dropna [] = []"
| "dropna (None # xs) = dropna xs"
| "dropna (Some x # xs) = x # dropna xs"

definition get_cell :: "string list \<Rightarrow> cell list \<Rightarrow> string \<Rightarrow> cell" where
  "get_cell cols r name = (case map_of (zip cols r) name of Some c \<Rightarrow> c | None \<Rightarrow> NA)"

text \<open>The cells of column \<open>name\<close>, one per row, in row order.\<close>

definition series :: "dataframe \<Rightarrow> string \<Rightarrow> cell list" where
  "series df name = map (\<lambda>r. get_cell (columns df) r name) (rows df)"

text \<open>\<^verbatim>\<open>df[name]\<close>: the column as a series, or KeyError when there is no such column.\<close>

definition getitem :: "dataframe \<Rightarrow> string \<Rightarrow> error + cell list" where
  "getitem df name =
     (if name \<in> set (columns df) then Inr (series df name) else Inl KeyError)"

text \<open>\<^verbatim>\<open>series.iloc[0]\<close>: IndexError on an empty series.\<close>

definition iloc0 :: "'a list \<Rightarrow> error + 'a" where
  "iloc0 xs = (case xs of [] \<Rightarrow> Inl IndexError | x # _ \<Rightarrow> Inr x)"

text \<open>Sequencing of steps that may raise: the first exception ends the computation.\<close>

definition bindE :: "error + 'a \<Rightarrow> ('a \<Rightarrow> error + 'b) \<Rightarrow> error + 'b" where
  "bindE m f = (case m of Inl e \<Rightarrow> Inl e | Inr v \<Rightarrow> f v)"

section \<open>numpy reductions\<close>

definition np_mean :: "real list \<Rightarrow> real" where
  "np_mean xs = sum_list xs / real (length xs)"

text \<open>\<^verbatim>\<open>np.std\<close> is the population standard deviation (no Bessel correction).\<close>

definition np_std :: "real list \<Rightarrow> real" where
  "np_std xs = sqrt (np_mean (map (\<lambda>x. (x - np_mean xs)\<^sup>2) xs))"

text \<open>\<^verbatim>\<open>np.min\<close> and \<^verbatim>\<open>np.max\<close> raise ValueError on an empty array.\<close>

definition np_min :: "real list \<Rightarrow> error + real" where
  "np_min xs = (case xs of [] \<Rightarrow> Inl ValueError | x # ys \<Rightarrow> Inr (fold min ys x))"

definition np_max :: "real list \<Rightarrow> error + real" where
  "np_max xs = (case xs of [] \<Rightarrow> Inl ValueError | x # ys \<Rightarrow> Inr (fold max ys x))"

section \<open>Per-person feature builder\<close>

text \<open>
  Lines 61-72: the optional scalar feature read from the first record of column
  \<open>name\<close> (\<^verbatim>\<open>'Age'\<close> or \<^verbatim>\<open>'BMI'\<close>); \<open>None\<close> when the column is absent or the value is
  not numeric.
\<close>

definition optional_feature :: "parser \<Rightarrow> dataframe \<Rightarrow> string \<Rightarrow> error + real option" where
  "optional_feature parse person_df name =
     (if name \<in> set (columns person_df)
      then bindE (getitem person_df name) (\<lambda>col.
           bindE (iloc0 col) (\<lambda>v. Inr (to_numeric parse v)))
      else Inr None)"

text \<open>Lines 56-59: the coerced menses lengths, \<open>None\<close> when there is no such column.\<close>

definition read_period_lengths :: "parser \<Rightarrow> dataframe \<Rightarrow> error + real list option" where
  "read_period_lengths parse person_df =
     (if ''LengthofMenses'' \<in> set (columns person_df)
      then bindE (getitem person_df ''LengthofMenses'') (\<lambda>col.
           Inr (Some (dropna (map (to_numeric parse) col))))
      else Inr None)"

text \<open>Lines 92-102: the period-length feature of the window starting at \<open>i\<close>.\<close>

definition period_feature :: "real list option \<Rightarrow> nat \<Rightarrow> nat \<Rightarrow> real" where
  "period_feature period_lengths i sequence_length =
     (case period_lengths of
        None \<Rightarrow> 5
      | Some ps \<Rightarrow>
          if length ps > i + sequence_length then
            (let prev_periods = take sequence_length (drop i ps);
                 valid_periods = filter (\<lambda>p. p > 0 \<and> p < 15) prev_periods
             in if length valid_periods > 0 then np_mean valid_periods else 5)
          else 5)"

text \<open>
  Lines 76-108: the body of the loop at offset \<open>i\<close>. \<open>Inr None\<close> is
  \<^verbatim>\<open>continue\<close>; \<open>Inr (Some (features, target))\<close> is the pair appended to the
  two output lists.
\<close>

definition window_sample ::
  "real list \<Rightarrow> real list option \<Rightarrow> real option \<Rightarrow> real option \<Rightarrow> nat \<Rightarrow> nat
     \<Rightarrow> error + (real list \<times> real) option" where
  "window_sample cycle_lengths period_lengths age bmi sequence_length i =
     (if i + sequence_length < length cycle_lengths then
        (let prev_cycles = take sequence_length (drop i cycle_lengths);
             target = cycle_lengths ! (i + sequence_length)
         in if target < 15 \<or> target > 60 then Inr None
            else if list_ex (\<lambda>c. c < 15 \<or> c > 60) prev_cycles then Inr None
            else
              bindE (np_min prev_cycles) (\<lambda>mn.
              bindE (np_max prev_cycles) (\<lambda>mx.
                Inr (Some (prev_cycles
                     @ [np_mean prev_cycles, np_std prev_cycles, mn, mx,
                        period_feature period_lengths i sequence_length,
                        (case age of Some a \<Rightarrow> a | None \<Rightarrow> 30),
                        (case bmi of Some b \<Rightarrow> b | None \<Rightarrow> 22)],
                     target)))))
      else Inl IndexError)"

text \<open>Lines 75-108: the loop over the offsets, appending to the two output lists.\<close>

fun sliding_loop ::
  "real list \<Rightarrow> real list option \<Rightarrow> real option \<Rightarrow> real option \<Rightarrow> nat \<Rightarrow> nat list
     \<Rightarrow> samples \<Rightarrow> error + samples" where
  "sliding_loop cs ps age bmi W [] acc = Inr acc"
| "sliding_loop cs ps age bmi W (i # is) (X_samples, y_samples) =
     bindE (window_sample cs ps age bmi W i) (\<lambda>s.
       case s of
         None \<Rightarrow> sliding_loop cs ps age bmi W is (X_samples, y_samples)
       | Some (features, target) \<Rightarrow>
           sliding_loop cs ps age bmi W is (X_samples @ [features], y_samples @ [target]))"

definition prepare_features_per_person :: "parser \<Rightarrow> dataframe \<Rightarrow> nat \<Rightarrow> error + samples" where
  "prepare_features_per_person parse person_df sequence_length =
     bindE (getitem person_df ''LengthofCycle'') (\<lambda>col.
       let cycle_lengths = dropna (map (to_numeric parse) col)
       in if length cycle_lengths < sequence_length + 1 then Inr ([], [])
          else
            bindE (read_period_lengths parse person_df) (\<lambda>period_lengths.
            bindE (optional_feature parse person_df ''Age'') (\<lambda>age.
            bindE (optional_feature parse person_df ''BMI'') (\<lambda>bmi.
              sliding_loop cycle_lengths period_lengths age bmi sequence_length
                [0 ..< length cycle_lengths - sequence_length] ([], [])))))"

section \<open>Dataset assembler\<close>

text \<open>
  \<^verbatim>\<open>str.lower\<close> on the letters A-Z; a byte outside that range is left as it is.
\<close>

definition lower_char :: "char \<Rightarrow> char" where
  "lower_char c =
     (case map_of (zip ''ABCDEFGHIJKLMNOPQRSTUVWXYZ'' ''abcdefghijklmnopqrstuvwxyz'') c of
        Some l \<Rightarrow> l
      | None \<Rightarrow> c)"

definition lower :: "string \<Rightarrow> string" where
  "lower s = map lower_char s"

fun startswith :: "string \<Rightarrow> string \<Rightarrow> bool" where
  "startswith s [] = True"
| "startswith [] (p # ps) = False"
| "startswith (c # cs) (p # ps) = (c = p \<and> startswith cs ps)"

text \<open>\<^verbatim>\<open>sub in s\<close> on strings: \<open>sub\<close> occurs in \<open>s\<close> as a contiguous run.\<close>

fun contains :: "string \<Rightarrow> string \<Rightarrow> bool" where
  "contains [] sub = (sub = [])"
| "contains (c # cs) sub = (startswith (c # cs) sub \<or> contains cs sub)"

definition preferred_id_columns :: "string list" where
  "preferred_id_columns = [''ClientID'', ''ID'', ''Client'', ''Person'', ''Subject'']"

text \<open>Lines 118-129: the two searches for the identifier column.\<close>

definition find_id_column :: "dataframe \<Rightarrow> string option" where
  "find_id_column df =
     (case find (\<lambda>col. col \<in> set (columns df)) preferred_id_columns of
        Some col \<Rightarrow> Some col
      | None \<Rightarrow>
          find (\<lambda>col. contains (lower col) ''id'' \<or> contains (lower col) ''client'')
            (columns df))"

text \<open>
  \<^verbatim>\<open>series.unique()\<close>: the distinct values in order of first appearance (NaN, when
  present, is one of them).
\<close>

fun unique_from :: "'a list \<Rightarrow> 'a list \<Rightarrow> 'a list" where
  "unique_from seen [] = []"
| "unique_from seen (x # xs) =
     (if x \<in> set seen then unique_from seen xs else x # unique_from (x # seen) xs)"

definition unique :: "'a list \<Rightarrow> 'a list" where
  "unique xs = unique_from [] xs"

text \<open>
  Elementwise \<^verbatim>\<open>==\<close> of pandas: NaN equals nothing, itself included; a number never
  equals a text.
\<close>

fun cell_eq :: "cell \<Rightarrow> cell \<Rightarrow> bool" where
  "cell_eq (Num a) (Num b) = (a = b)"
| "cell_eq (Str a) (Str b) = (a = b)"
| "cell_eq _ _ = False"

text \<open>\<^verbatim>\<open>df[df[id_column] == person_id]\<close>: the rows of one person, in table order.\<close>

definition select_rows :: "dataframe \<Rightarrow> string \<Rightarrow> cell \<Rightarrow> dataframe" where
  "select_rows df id_column person_id =
     df\<lparr>rows := filter (\<lambda>r. cell_eq (get_cell (columns df) r id_column) person_id) (rows df)\<rparr>"

text \<open>
  \<^verbatim>\<open>df.sort_values(name)\<close> with pandas' defaults: ascending, NaN last. Python orders
  numbers by value and texts lexicographically by character code, and raises
  TypeError when asked to order a number against a text. The order of rows with equal
  keys is left to the library's sorting routine; the model keeps them in table order.
\<close>

fun str_less :: "string \<Rightarrow> string \<Rightarrow> bool" where
  "str_less [] [] = False"
| "str_less [] (b # bs) = True"
| "str_less (a # as) [] = False"
| "str_less (a # as) (b # bs) =
     ((of_char a :: nat) < of_char b \<or> (a = b \<and> str_less as bs))"

fun key_less :: "cell \<Rightarrow> cell \<Rightarrow> bool" where
  "key_less NA _ = False"
| "key_less _ NA = True"
| "key_less (Num a) (Num b) = (a < b)"
| "key_less (Str a) (Str b) = str_less a b"
| "key_less _ _ = False"

fun insert_by_key :: "cell \<times> cell list \<Rightarrow> (cell \<times> cell list) list \<Rightarrow> (cell \<times> cell list) list" where
  "insert_by_key x [] = [x]"
| "insert_by_key x (y # ys) =
     (if key_less (fst y) (fst x) then y # insert_by_key x ys else x # y # ys)"

definition is_num :: "cell \<Rightarrow> bool" where
  "is_num c = (case c of Num _ \<Rightarrow> True | _ \<Rightarrow> False)"

definition is_str :: "cell \<Rightarrow> bool" where
  "is_str c = (case c of Str _ \<Rightarrow> True | _ \<Rightarrow> False)"

definition sort_values :: "dataframe \<Rightarrow> string \<Rightarrow> error + dataframe" where
  "sort_values df name =
     bindE (getitem df name) (\<lambda>keys.
       if list_ex is_num keys \<and> list_ex is_str keys then Inl TypeError
       else Inr (df\<lparr>rows := map snd (foldr insert_by_key (zip keys (rows df)) [])\<rparr>))"

text \<open>Lines 141-150: the loop over the persons, extending the two output lists.\<close>

fun persons_loop ::
  "parser \<Rightarrow> dataframe \<Rightarrow> string \<Rightarrow> cell list \<Rightarrow> samples \<Rightarrow> error + samples" where
  "persons_loop parse df id_column [] acc = Inr acc"
| "persons_loop parse df id_column (person_id # rest) (X_all, y_all) =
     bindE (let person_df = select_rows df id_column person_id
            in if ''CycleNumber'' \<in> set (columns person_df)
               then sort_values person_df ''CycleNumber'' else Inr person_df) (\<lambda>person_df.
     bindE (prepare_features_per_person parse person_df SEQUENCE_LENGTH) (\<lambda>(X_person, y_person).
       if length X_person > 0
       then persons_loop parse df id_column rest (X_all @ X_person, y_all @ y_person)
       else persons_loop parse df id_column rest (X_all, y_all)))"

definition prepare_dataset :: "parser \<Rightarrow> dataframe \<Rightarrow> error + samples" where
  "prepare_dataset parse df =
     (case find_id_column df of
        None \<Rightarrow> prepare_features_per_person parse df SEQUENCE_LENGTH
      | Some id_column \<Rightarrow>
          bindE (getitem df id_column) (\<lambda>ids.
            persons_loop parse df id_column (unique ids) ([], [])))"

section \<open>Feature scaling\<close>

text \<open>
  Modelled from the spec: scikit-learn's \<^verbatim>\<open>StandardScaler\<close>, a library class that
  \<^verbatim>\<open>main\<close> calls (lines 247-250) and the repository does not define. The fitted
  attributes \<^verbatim>\<open>mean_\<close> and \<^verbatim>\<open>scale_\<close> are the per-feature mean and standard deviation of
  the fitted rows, and the transform is \<open>(x - mean) / scale\<close> per feature. As in the
  library, a feature whose deviation is zero gets the scale 1, and a table with no
  row, or a row of another width than the fitted one, is refused with ValueError.
\<close>

record standard_scaler =
  scaler_mean :: "real list"
  scaler_scale :: "real list"

definition handle_zeros_in_scale :: "real \<Rightarrow> real" where
  "handle_zeros_in_scale s = (if s = 0 then 1 else s)"

definition fit :: "real list list \<Rightarrow> error + standard_scaler" where
  "fit X =
     (if X = [] then Inl ValueError
      else Inr \<lparr>scaler_mean = map np_mean (transpose X),
                scaler_scale = map (\<lambda>col. handle_zeros_in_scale (np_std col)) (transpose X)\<rparr>)"

definition transform_row :: "standard_scaler \<Rightarrow> real list \<Rightarrow> real list" where
  "transform_row scaler x =
     map (\<lambda>(v, m, s). (v - m) / s) (zip x (zip (scaler_mean scaler) (scaler_scale scaler)))"

definition transform :: "standard_scaler \<Rightarrow> real list list \<Rightarrow> error + real list list" where
  "transform scaler X =
     (if X = [] \<or> list_ex (\<lambda>x. length x \<noteq> length (scaler_mean scaler)) X
      then Inl ValueError
      else Inr (map (transform_row scaler) X))"

text \<open>
  Lines 247-250 of \<^verbatim>\<open>main\<close>: the scaler is fitted on the training partition and
  applied to the three partitions.
\<close>

definition scale_features ::
  "real list list \<Rightarrow> real list list \<Rightarrow> real list list
     \<Rightarrow> error + (standard_scaler \<times> real list list \<times> real list list \<times> real list list)" where
  "scale_features X_train X_val X_test =
     bindE (fit X_train) (\<lambda>scaler.
     bindE (transform scaler X_train) (\<lambda>X_train_scaled.
     bindE (transform scaler X_val) (\<lambda>X_val_scaled.
     bindE (transform scaler X_test) (\<lambda>X_test_scaled.
       Inr (scaler, X_train_scaled, X_val_scaled, X_test_scaled)))))"

section \<open>Data split\<close>



section \<open>Pipeline\<close>





section \<open>Vocabulary of the statements\<close>

text \<open>
  What the feature builder reads from a person's table: the coerced cycle lengths
  (line 51), the coerced menses lengths when the column exists (lines 57-59), and the
  numeric value of the first record of an optional column (lines 62-72).
\<close>

definition cycle_lengths_of :: "parser \<Rightarrow> dataframe \<Rightarrow> real list" where
  "cycle_lengths_of parse df = dropna (map (to_numeric parse) (series df ''LengthofCycle''))"

definition period_lengths_of :: "parser \<Rightarrow> dataframe \<Rightarrow> real list option" where
  "period_lengths_of parse df =
     (if ''LengthofMenses'' \<in> set (columns df)
      then Some (dropna (map (to_numeric parse) (series df ''LengthofMenses'')))
      else None)"

definition first_value_of :: "parser \<Rightarrow> dataframe \<Rightarrow> string \<Rightarrow> real option" where
  "first_value_of parse df name =
     (if name \<in> set (columns df)
      then (case series df name of [] \<Rightarrow> None | c # _ \<Rightarrow> to_numeric parse c)
      else None)"

text \<open>
  An offset is accepted when its target and all values of its window lie in [15, 60];
  the accepted offsets are listed in increasing order.
\<close>

definition accepted :: "real list \<Rightarrow> nat \<Rightarrow> nat \<Rightarrow> bool" where
  "accepted cs W i =
     (15 \<le> cs ! (i + W) \<and> cs ! (i + W) \<le> 60
      \<and> list_all (\<lambda>c. 15 \<le> c \<and> c \<le> 60) (take W (drop i cs)))"

definition accepted_offsets :: "real list \<Rightarrow> nat \<Rightarrow> nat list" where
  "accepted_offsets cs W = filter (accepted cs W) [0 ..< length cs - W]"

definition feature_vector ::
  "real list \<Rightarrow> real list option \<Rightarrow> real option \<Rightarrow> real option \<Rightarrow> nat \<Rightarrow> nat \<Rightarrow> real list" where
  "feature_vector cs ps age bmi W i =
     (let w = take W (drop i cs)
      in w @ [np_mean w, np_std w, Min (set w), Max (set w), period_feature ps i W,
              (case age of Some a \<Rightarrow> a | None \<Rightarrow> 30),
              (case bmi of Some b \<Rightarrow> b | None \<Rightarrow> 22)])"

text \<open>
  The period-length feature as the specification words it: the mean of the valid
  menses lengths of the records at offsets \<open>i .. i+6\<close>, and 5.0 when there is none.
\<close>

definition spec_period_feature :: "parser \<Rightarrow> dataframe \<Rightarrow> nat \<Rightarrow> real" where
  "spec_period_feature parse df i =
     (let valid = filter (\<lambda>p. 0 < p \<and> p < 15)
                    (dropna (map (to_numeric parse)
                       (take 6 (drop i (series df ''LengthofMenses'')))))
      in if valid \<noteq> [] then np_mean valid else 5)"

text \<open>
  The second test of the identifier search (line 127): the column name, in lower
  case, contains \<open>id\<close> or \<open>client\<close>.
\<close>

definition mentions_id :: "string \<Rightarrow> bool" where
  "mentions_id col = (contains (lower col) ''id'' \<or> contains (lower col) ''client'')"

text \<open>
  The inverse of the standardization as the specification words it:
  \<open>x * scale + mean\<close> per feature.
\<close>

definition spec_inverse :: "standard_scaler \<Rightarrow> real list \<Rightarrow> real list" where
  "spec_inverse scaler z =
     map (\<lambda>(v, m, s). v * s + m) (zip z (zip (scaler_mean scaler) (scaler_scale scaler)))"

subsection \<open>Example tables\<close>

text \<open>A reader that takes no text for a number; the examples hold their numbers as numbers.\<close>

definition unreadable :: parser where
  "unreadable s = None"

definition eight_cycles :: dataframe where
  "eight_cycles =
     \<lparr>columns = [''LengthofCycle''],
      rows = [[Num 28], [Num 30], [Num 29], [Num 27], [Num 31], [Num 28], [Num 29], [Num 30]]\<rparr>"

definition six_valid :: dataframe where
  "six_valid =
     \<lparr>columns = [''LengthofCycle''],
      rows = [[Num 28], [Str ''n/a''], [Num 30], [Num 29], [NA], [Num 27], [Num 31], [Num 28]]\<rparr>"

definition with_outlier :: dataframe where
  "with_outlier =
     \<lparr>columns = [''LengthofCycle''],
      rows = [[Num 28], [Num 30], [Num 29], [Num 27], [Num 31], [Num 28], [Num 29],
              [Num 70], [Num 28]]\<rparr>"

definition full_record :: dataframe where
  "full_record =
     \<lparr>columns = [''CycleNumber'', ''LengthofCycle'', ''LengthofMenses'', ''Age'', ''BMI''],
      rows = [[Num 1, Num 28, Num 4, Num 36, Num 21],
              [Num 2, Num 30, Num 4, NA, NA],
              [Num 3, Num 29, Num 6, NA, NA],
              [Num 4, Num 27, Num 5, NA, NA],
              [Num 5, Num 31, Num 5, NA, NA],
              [Num 6, Num 28, Num 3, NA, NA],
              [Num 7, Num 29, Num 4, NA, NA]]\<rparr>"

definition short_menses :: dataframe where
  "short_menses =
     \<lparr>columns = [''LengthofCycle'', ''LengthofMenses''],
      rows = [[Num 28, Num 4], [Num 28, Num 4], [Num 28, Num 4], [Num 28, Num 4],
              [Num 28, Num 4], [Num 28, Num 4], [Num 28, Str ''heavy'']]\<rparr>"

definition seven_cycles :: dataframe where
  "seven_cycles =
     \<lparr>columns = [''LengthofCycle'', ''LengthofMenses'', ''Age''],
      rows = [[Num 28, NA, Str ''unknown''], [Num 30, NA, NA], [Num 29, NA, NA],
              [Num 27, NA, NA], [Num 31, NA, NA], [Num 28, NA, NA], [Num 29, NA, NA]]\<rparr>"

definition ids_first :: dataframe where
  "ids_first = \<lparr>columns = [''Subject'', ''ID'', ''LengthofCycle''], rows = []\<rparr>"

definition ids_substring :: dataframe where
  "ids_substring = \<lparr>columns = [''CycleNumber'', ''PatientId'', ''Client_Code''], rows = []\<rparr>"

definition unsorted_no_id :: dataframe where
  "unsorted_no_id =
     \<lparr>columns = [''CycleNumber'', ''LengthofCycle''],
      rows = [[Num 7, Num 29], [Num 6, Num 28], [Num 5, Num 31], [Num 4, Num 27],
              [Num 3, Num 29], [Num 2, Num 30], [Num 1, Num 28]]\<rparr>"

definition unsorted_with_id :: dataframe where
  "unsorted_with_id =
     \<lparr>columns = [''ClientID'', ''CycleNumber'', ''LengthofCycle''],
      rows = [[Num 1, Num 7, Num 29], [Num 1, Num 6, Num 28], [Num 1, Num 5, Num 31],
              [Num 1, Num 4, Num 27], [Num 1, Num 3, Num 29], [Num 1, Num 2, Num 30],
              [Num 1, Num 1, Num 28]]\<rparr>"

definition sorted_with_id :: dataframe where
  "sorted_with_id =
     \<lparr>columns = [''ClientID'', ''CycleNumber'', ''LengthofCycle''],
      rows = [[Num 1, Num 1, Num 28], [Num 1, Num 2, Num 30], [Num 1, Num 3, Num 29],
              [Num 1, Num 4, Num 27], [Num 1, Num 5, Num 31], [Num 1, Num 6, Num 28],
              [Num 1, Num 7, Num 29]]\<rparr>"

definition no_cycle_column :: dataframe where
  "no_cycle_column =
     \<lparr>columns = [''ClientID'', ''CycleLength''],
      rows = [[Num 1, Num 28], [Num 1, Num 30]]\<rparr>"




definition train_rows :: "real list list" where
  "train_rows = [[28, 30, 29, 27, 31, 28, 29, 1, 27, 31, 5, 30, 22],
                 [30, 30, 29, 27, 31, 28, 29, 1, 27, 31, 3, 30, 24]]"

definition val_rows :: "real list list" where
  "val_rows = [[27, 30, 29, 27, 31, 28, 29, 1, 27, 31, 5, 40, 20]]"

definition test_rows :: "real list list" where
  "test_rows = [[31, 30, 29, 27, 31, 28, 29, 1, 27, 31, 6, 25, 25]]"

section \<open>The feature builder, characterised\<close>

lemmas table_simps = series_def get_cell_def to_numeric_def unreadable_def
  cycle_lengths_of_def period_lengths_of_def first_value_of_def

lemmas eval_simps = prepare_features_per_person_def getitem_def table_simps
  read_period_lengths_def optional_feature_def iloc0_def upt_conv_Cons window_sample_def
  Let_def np_min_def np_max_def period_feature_def np_mean_def np_std_def power2_eq_square

lemma bindE_Inr [simp]: "bindE (Inr v) f = f v"
  by (simp add: bindE_def)

lemma bindE_Inl [simp]: "bindE (Inl e) f = Inl e"
  by (simp add: bindE_def)

lemma getitem_present: "name \<in> set (columns df) \<Longrightarrow> getitem df name = Inr (series df name)"
  by (simp add: getitem_def)

lemma getitem_absent: "name \<notin> set (columns df) \<Longrightarrow> getitem df name = Inl KeyError"
  by (simp add: getitem_def)

lemma read_period_lengths_eq:
  "read_period_lengths parse df = Inr (period_lengths_of parse df)"
  by (simp add: read_period_lengths_def period_lengths_of_def getitem_def)

lemma optional_feature_eq:
  "rows df \<noteq> [] \<Longrightarrow> optional_feature parse df name = Inr (first_value_of parse df name)"
  by (cases "rows df")
     (simp_all add: optional_feature_def first_value_of_def getitem_def series_def iloc0_def)

lemma cycle_lengths_rows: "cycle_lengths_of parse df \<noteq> [] \<Longrightarrow> rows df \<noteq> []"
  by (auto simp: cycle_lengths_of_def series_def)

lemma np_min_window: "w \<noteq> [] \<Longrightarrow> np_min w = Inr (Min (set w))"
proof (cases w)
  case Nil
  assume "w \<noteq> []"
  with Nil show ?thesis by simp
next
  case (Cons a as)
  then show ?thesis
    unfolding np_min_def by (simp only: list.case Min.set_eq_fold)
qed

lemma np_max_window: "w \<noteq> [] \<Longrightarrow> np_max w = Inr (Max (set w))"
proof (cases w)
  case Nil
  assume "w \<noteq> []"
  with Nil show ?thesis by simp
next
  case (Cons a as)
  then show ?thesis
    unfolding np_max_def by (simp only: list.case Max.set_eq_fold)
qed

lemma window_sample_eq:
  assumes "0 < W" and "i + W < length cs"
  shows "window_sample cs ps age bmi W i =
           Inr (if accepted cs W i then Some (feature_vector cs ps age bmi W i, cs ! (i + W))
                else None)"
proof -
  have ne: "take W (drop i cs) \<noteq> []" using assms by auto
  have ex: "list_ex (\<lambda>c. c < 15 \<or> c > 60) xs = (\<not> list_all (\<lambda>c. 15 \<le> c \<and> c \<le> 60) xs)"
    for xs :: "real list"
    by (induction xs) auto
  show ?thesis
    using assms
    by (auto simp: window_sample_def Let_def accepted_def feature_vector_def ex
        np_min_window [OF ne] np_max_window [OF ne])
qed

lemma sliding_loop_eq:
  assumes "0 < W" and "\<forall>i \<in> set idxs. i + W < length cs"
  shows "sliding_loop cs ps age bmi W idxs (X, y) =
           Inr (X @ map (feature_vector cs ps age bmi W) (filter (accepted cs W) idxs),
                y @ map (\<lambda>i. cs ! (i + W)) (filter (accepted cs W) idxs))"
  using assms
  by (induction idxs arbitrary: X y) (simp_all add: window_sample_eq)

lemma prepare_features_eq:
  assumes "''LengthofCycle'' \<in> set (columns df)" and "0 < W"
  shows "prepare_features_per_person parse df W =
           Inr (map (feature_vector (cycle_lengths_of parse df) (period_lengths_of parse df)
                       (first_value_of parse df ''Age'') (first_value_of parse df ''BMI'') W)
                    (accepted_offsets (cycle_lengths_of parse df) W),
                map (\<lambda>i. cycle_lengths_of parse df ! (i + W))
                    (accepted_offsets (cycle_lengths_of parse df) W))"
proof (cases "length (cycle_lengths_of parse df) < W + 1")
  case True
  then show ?thesis
    using assms
    by (simp add: prepare_features_per_person_def getitem_present Let_def
        cycle_lengths_of_def [symmetric] accepted_offsets_def)
next
  case False
  then have "cycle_lengths_of parse df \<noteq> []" by auto
  then have r: "rows df \<noteq> []" by (rule cycle_lengths_rows)
  have b: "\<forall>i \<in> set [0 ..< length (cycle_lengths_of parse df) - W].
             i + W < length (cycle_lengths_of parse df)"
    by auto
  show ?thesis
    using False assms sliding_loop_eq [OF assms(2) b]
    by (simp add: prepare_features_per_person_def getitem_present Let_def
        cycle_lengths_of_def [symmetric] accepted_offsets_def
        read_period_lengths_eq optional_feature_eq [OF r])
qed

lemma prepare_features_absent:
  "''LengthofCycle'' \<notin> set (columns df) \<Longrightarrow>
     prepare_features_per_person parse df W = Inl KeyError"
  by (simp add: prepare_features_per_person_def getitem_absent)

lemma accepted_offsets_bound:
  "i \<in> set (accepted_offsets cs W) \<Longrightarrow> i + W < length cs \<and> accepted cs W i"
  by (auto simp: accepted_offsets_def)

lemma take_feature_vector:
  "i + W < length cs \<Longrightarrow> take W (feature_vector cs ps age bmi W i) = take W (drop i cs)"
  by (simp add: feature_vector_def Let_def)

lemma accepted_offsets_all:
  assumes "\<forall>c \<in> set cs. 15 \<le> c \<and> c \<le> 60"
  shows "accepted_offsets cs W = [0 ..< length cs - W]"
proof -
  have "accepted cs W i" if "i < length cs - W" for i
  proof -
    have "cs ! (i + W) \<in> set cs" using that by simp
    moreover have "set (take W (drop i cs)) \<subseteq> set cs"
      by (meson set_drop_subset set_take_subset subset_trans)
    ultimately show ?thesis
      using assms by (auto simp: accepted_def list_all_iff)
  qed
  then show ?thesis
    by (simp add: accepted_offsets_def filter_id_conv)
qed

subsection \<open>The builder on the example tables\<close>

lemma cycles_eight:
  "cycle_lengths_of unreadable eight_cycles = [28, 30, 29, 27, 31, 28, 29, 30]"
  by (simp add: eight_cycles_def table_simps)

lemma cycles_six_valid:
  "cycle_lengths_of unreadable six_valid = [28, 30, 29, 27, 31, 28]"
  by (simp add: six_valid_def table_simps)

lemma cycles_with_outlier:
  "cycle_lengths_of unreadable with_outlier = [28, 30, 29, 27, 31, 28, 29, 70, 28]"
  by (simp add: with_outlier_def table_simps)

lemma features_with_outlier:
  "prepare_features_per_person unreadable with_outlier 6 =
     Inr ([[28, 30, 29, 27, 31, 28, 173 / 6, sqrt (65 / 36), 27, 31, 5, 30, 22]], [29])"
  by (simp add: with_outlier_def eval_simps)

lemma features_full_record:
  "prepare_features_per_person unreadable full_record 6 =
     Inr ([[28, 30, 29, 27, 31, 28, 173 / 6, sqrt (65 / 36), 27, 31, 9 / 2, 36, 21]], [29])"
  by (simp add: full_record_def eval_simps)

section \<open>Claims about the feature builder\<close>

text \<open>
  Claim C4, as amended. When fewer than 7 entries of the cycle-length column are
  numeric, the feature builder returns the empty feature and target sequences, and
  does not raise, provided that the table has a LengthofCycle column; on a table
  without that column it raises KeyError.
\<close>

theorem too_few_cycles_no_examples:
  assumes "length (cycle_lengths_of parse df) < 7"
  shows "prepare_features_per_person parse df 6 =
           (if ''LengthofCycle'' \<in> set (columns df) then Inr ([], []) else Inl KeyError)"
  using assms
  by (simp add: prepare_features_per_person_def getitem_present getitem_absent Let_def
      cycle_lengths_of_def)

theorem too_few_cycles_no_examples_witness:
  "length (cycle_lengths_of unreadable six_valid) = 6
   \<and> prepare_features_per_person unreadable six_valid 6 = Inr ([], [])"
proof -
  have h: "length (cycle_lengths_of unreadable six_valid) < 7"
    by (simp add: cycles_six_valid)
  have c: "''LengthofCycle'' \<in> set (columns six_valid)"
    by (simp add: six_valid_def)
  from too_few_cycles_no_examples [OF h] c
  have "prepare_features_per_person unreadable six_valid 6 = Inr ([], [])" by simp
  then show ?thesis by (simp add: cycles_six_valid)
qed

text \<open>
  Claim C4 as stated fails: the table \<open>no_cycle_column\<close> names its cycle-length column
  otherwise, so its records yield no valid cycle-length value, fewer than 7, and the
  feature builder raises KeyError (line 51) instead of returning the empty sequences.
\<close>

theorem too_few_cycles_counterexample:
  "cycle_lengths_of unreadable no_cycle_column = []
   \<and> length (cycle_lengths_of unreadable no_cycle_column) < 7
   \<and> prepare_features_per_person unreadable no_cycle_column 6 = Inl KeyError"
  by (simp add: no_cycle_column_def table_simps prepare_features_per_person_def getitem_def)

text \<open>
  Claim C1. When the coerced cycle-length sequence has \<open>N \<ge> 7\<close> entries, all of them
  in [15, 60], the feature builder with window length 6 returns exactly \<open>N - 6\<close>
  examples; example \<open>i\<close> (for \<open>i\<close> from 0 to \<open>N - 7\<close>) starts with the window
  \<open>cycles[i .. i+6)\<close> and has the target \<open>cycles[i+6]\<close>.
\<close>

theorem sliding_window_count:
  assumes "''LengthofCycle'' \<in> set (columns df)"
    and "7 \<le> length (cycle_lengths_of parse df)"
    and "\<forall>c \<in> set (cycle_lengths_of parse df). 15 \<le> c \<and> c \<le> 60"
  shows "\<exists>X y. prepare_features_per_person parse df 6 = Inr (X, y)
           \<and> length X = length (cycle_lengths_of parse df) - 6
           \<and> length y = length (cycle_lengths_of parse df) - 6
           \<and> (\<forall>i < length (cycle_lengths_of parse df) - 6.
                 take 6 (X ! i) = take 6 (drop i (cycle_lengths_of parse df))
                 \<and> y ! i = cycle_lengths_of parse df ! (i + 6))"
  using assms(2)
  by (simp add: prepare_features_eq [OF assms(1)] accepted_offsets_all [OF assms(3)]
      take_feature_vector)

theorem sliding_window_count_witness:
  "\<exists>X y. prepare_features_per_person unreadable eight_cycles 6 = Inr (X, y)
     \<and> length X = 2 \<and> length y = 2
     \<and> (\<forall>i < 2. take 6 (X ! i) = take 6 (drop i [28, 30, 29, 27, 31, 28, 29, 30])
                 \<and> y ! i = [28, 30, 29, 27, 31, 28, 29, 30] ! (i + 6))"
proof -
  have h1: "''LengthofCycle'' \<in> set (columns eight_cycles)"
    by (simp add: eight_cycles_def)
  have h2: "7 \<le> length (cycle_lengths_of unreadable eight_cycles)"
    by (simp add: cycles_eight)
  have h3: "\<forall>c \<in> set (cycle_lengths_of unreadable eight_cycles). 15 \<le> c \<and> c \<le> 60"
    by (simp add: cycles_eight)
  from sliding_window_count [OF h1 h2 h3] show ?thesis
    by (simp add: cycles_eight numeral_2_eq_2)
qed

text \<open>
  Claim C2. In every example the feature builder returns, the target and each of the
  six window values lie in [15, 60]. The examples are exactly those of the accepted
  offsets, in order, each with the window and target as they stand in the cycle-length
  sequence: an offset whose target or window has a value outside [15, 60] contributes
  nothing, and no value is clamped.
\<close>

theorem examples_in_range_or_skipped:
  assumes "prepare_features_per_person parse df 6 = Inr (X, y)"
  shows "(\<forall>k < length X. 15 \<le> y ! k \<and> y ! k \<le> 60
            \<and> (\<forall>v \<in> set (take 6 (X ! k)). 15 \<le> v \<and> v \<le> 60))
       \<and> length X = length (accepted_offsets (cycle_lengths_of parse df) 6)
       \<and> length y = length (accepted_offsets (cycle_lengths_of parse df) 6)
       \<and> (\<forall>k < length X.
             take 6 (X ! k) =
               take 6 (drop (accepted_offsets (cycle_lengths_of parse df) 6 ! k)
                            (cycle_lengths_of parse df))
             \<and> y ! k = cycle_lengths_of parse df
                         ! (accepted_offsets (cycle_lengths_of parse df) 6 ! k + 6))"
proof (cases "''LengthofCycle'' \<in> set (columns df)")
  case False
  then show ?thesis using assms by (simp add: prepare_features_absent)
next
  case True
  let ?cs = "cycle_lengths_of parse df"
  let ?offs = "accepted_offsets ?cs 6"
  from assms have X: "X = map (feature_vector ?cs (period_lengths_of parse df)
                      (first_value_of parse df ''Age'') (first_value_of parse df ''BMI'') 6) ?offs"
    and y: "y = map (\<lambda>i. ?cs ! (i + 6)) ?offs"
    by (simp_all add: prepare_features_eq [OF True])
  have in_offs: "?offs ! k + 6 < length ?cs \<and> accepted ?cs 6 (?offs ! k)"
    if "k < length ?offs" for k
    using that accepted_offsets_bound [of "?offs ! k" ?cs 6] by simp
  show ?thesis
    using in_offs
    by (auto simp: X y take_feature_vector accepted_def list_all_iff)
qed

theorem examples_in_range_or_skipped_witness:
  "prepare_features_per_person unreadable with_outlier 6 =
     Inr ([[28, 30, 29, 27, 31, 28, 173 / 6, sqrt (65 / 36), 27, 31, 5, 30, 22]], [29])
   \<and> cycle_lengths_of unreadable with_outlier = [28, 30, 29, 27, 31, 28, 29, 70, 28]
   \<and> accepted_offsets [28, 30, 29, 27, 31, 28, 29, 70, 28] 6 = [0]
   \<and> length [[28, 30, 29, 27, 31, 28, 173 / 6, sqrt (65 / 36), 27, 31, 5, 30, 22 :: real]]
       = length (accepted_offsets [28, 30, 29, 27, 31, 28, 29, 70, 28] 6)
   \<and> take 6 ([[28, 30, 29, 27, 31, 28, 173 / 6, sqrt (65 / 36), 27, 31, 5, 30, 22 :: real]] ! 0)
       = take 6 (drop (accepted_offsets [28, 30, 29, 27, 31, 28, 29, 70, 28] 6 ! 0)
                   [28, 30, 29, 27, 31, 28, 29, 70, 28])"
proof -
  have offs: "accepted_offsets [28, 30, 29, 27, 31, 28, 29, 70, 28] 6 = [0]"
    by (simp add: accepted_offsets_def accepted_def upt_conv_Cons)
  from examples_in_range_or_skipped [OF features_with_outlier] show ?thesis
    by (simp add: cycles_with_outlier offs features_with_outlier)
qed

text \<open>
  Claim C9. The feature builder returns whenever the table has a cycle-length column,
  and whenever it returns, the two sequences have the same length and every feature
  vector has 13 components in this order: the 6 window values, their mean, standard
  deviation, minimum and maximum, the period-length feature, the age feature and the
  BMI feature.
\<close>

theorem parallel_outputs_thirteen_features:
  "(''LengthofCycle'' \<in> set (columns df)
      \<longrightarrow> (\<exists>X y. prepare_features_per_person parse df 6 = Inr (X, y)))
   \<and> (\<forall>X y. prepare_features_per_person parse df 6 = Inr (X, y) \<longrightarrow>
         length X = length y
         \<and> (\<forall>f \<in> set X. length f = 13
               \<and> (\<exists>i. i + 6 < length (cycle_lengths_of parse df)
                     \<and> (let w = take 6 (drop i (cycle_lengths_of parse df))
                        in f = w @ [np_mean w, np_std w, Min (set w), Max (set w),
                                    period_feature (period_lengths_of parse df) i 6,
                                    (case first_value_of parse df ''Age'' of
                                       Some a \<Rightarrow> a | None \<Rightarrow> 30),
                                    (case first_value_of parse df ''BMI'' of
                                       Some b \<Rightarrow> b | None \<Rightarrow> 22)]))))"
proof (cases "''LengthofCycle'' \<in> set (columns df)")
  case False
  then show ?thesis by (simp add: prepare_features_absent)
next
  case True
  let ?cs = "cycle_lengths_of parse df"
  have "\<forall>i \<in> set (accepted_offsets ?cs 6). i + 6 < length ?cs"
    using accepted_offsets_bound by blast
  then show ?thesis
    using True
    by (fastforce simp: prepare_features_eq [OF True] feature_vector_def Let_def)
qed

theorem parallel_outputs_thirteen_features_witness:
  "prepare_features_per_person unreadable full_record 6 =
     Inr ([[28, 30, 29, 27, 31, 28, 173 / 6, sqrt (65 / 36), 27, 31, 9 / 2, 36, 21]], [29])
   \<and> length [[28, 30, 29, 27, 31, 28, 173 / 6, sqrt (65 / 36), 27, 31, 9 / 2, 36, 21 :: real]]
       = length [29 :: real]
   \<and> length [28, 30, 29, 27, 31, 28, 173 / 6, sqrt (65 / 36), 27, 31, 9 / 2, 36, 21 :: real] = 13
   \<and> (\<exists>i. i + 6 < length (cycle_lengths_of unreadable full_record)
         \<and> (let w = take 6 (drop i (cycle_lengths_of unreadable full_record))
            in [28, 30, 29, 27, 31, 28, 173 / 6, sqrt (65 / 36), 27, 31, 9 / 2, 36, 21] =
                 w @ [np_mean w, np_std w, Min (set w), Max (set w),
                      period_feature (period_lengths_of unreadable full_record) i 6,
                      (case first_value_of unreadable full_record ''Age'' of
                         Some a \<Rightarrow> a | None \<Rightarrow> 30),
                      (case first_value_of unreadable full_record ''BMI'' of
                         Some b \<Rightarrow> b | None \<Rightarrow> 22)]))"
  using parallel_outputs_thirteen_features
          [of full_record unreadable, THEN conjunct2, rule_format, OF features_full_record]
  by (simp add: features_full_record)

text \<open>
  Claim C3, as amended. The period-length feature (component 10, counting from 0) of
  the example of accepted offset \<open>i\<close> is 5 when there is no menses column; otherwise,
  with \<open>ps\<close> the coerced menses lengths, it is the mean of the values strictly between
  0 and 15 among \<open>ps[i .. i+6)\<close> when \<open>ps\<close> has more than \<open>i + 6\<close> entries and
  such a value exists, and 5 otherwise.
\<close>

theorem period_feature_of_examples:
  assumes "prepare_features_per_person parse df 6 = Inr (X, y)" and "k < length X"
  shows "X ! k ! 10 =
           (let i = accepted_offsets (cycle_lengths_of parse df) 6 ! k
            in case period_lengths_of parse df of
                 None \<Rightarrow> 5
               | Some ps \<Rightarrow>
                   (let valid = filter (\<lambda>p. 0 < p \<and> p < 15) (take 6 (drop i ps))
                    in if i + 6 < length ps \<and> valid \<noteq> []
                       then sum_list valid / real (length valid) else 5))"
proof (cases "''LengthofCycle'' \<in> set (columns df)")
  case False
  then show ?thesis using assms by (simp add: prepare_features_absent)
next
  case True
  let ?cs = "cycle_lengths_of parse df"
  let ?offs = "accepted_offsets ?cs 6"
  from assms have k: "k < length ?offs"
    by (auto simp: prepare_features_eq [OF True])
  then have "?offs ! k + 6 < length ?cs"
    using accepted_offsets_bound [of "?offs ! k" ?cs 6] by simp
  then have "feature_vector ?cs ps age bmi 6 (?offs ! k) ! 10 = period_feature ps (?offs ! k) 6"
    for ps age bmi
    by (simp add: feature_vector_def Let_def nth_append)
  then show ?thesis
    using assms k
    by (auto simp: prepare_features_eq [OF True] period_feature_def Let_def np_mean_def
        split: option.splits)
qed

theorem period_feature_of_examples_witness:
  "[[28, 30, 29, 27, 31, 28, 173 / 6, sqrt (65 / 36), 27, 31, 9 / 2, 36, 21 :: real]] ! 0 ! 10
     = 9 / 2
   \<and> accepted_offsets (cycle_lengths_of unreadable full_record) 6 = [0]
   \<and> period_lengths_of unreadable full_record = Some [4, 4, 6, 5, 5, 3, 4]"
proof -
  have k: "0 < length
      [[28, 30, 29, 27, 31, 28, 173 / 6, sqrt (65 / 36), 27, 31, 9 / 2, 36, 21 :: real]]"
    by simp
  have offs: "accepted_offsets (cycle_lengths_of unreadable full_record) 6 = [0]"
    by (simp add: full_record_def table_simps accepted_offsets_def accepted_def upt_conv_Cons)
  have ps: "period_lengths_of unreadable full_record = Some [4, 4, 6, 5, 5, 3, 4]"
    by (simp add: full_record_def table_simps)
  from period_feature_of_examples [OF features_full_record k] show ?thesis
    by (simp add: offs ps)
qed

text \<open>
  Claim C3 as stated fails: in \<open>short_menses\<close> the six records of the window at
  offset 0 all have the valid menses length 4, yet the feature is the default 5,
  because the seventh menses entry is not numeric and the coerced menses sequence
  has only 6 entries.
\<close>

theorem period_feature_counterexample:
  "prepare_features_per_person unreadable short_menses 6 =
     Inr ([[28, 28, 28, 28, 28, 28, 28, 0, 28, 28, 5, 30, 22]], [28])
   \<and> spec_period_feature unreadable short_menses 0 = 4"
  by (simp add: short_menses_def eval_simps spec_period_feature_def)

text \<open>
  Claim C6. A person whose coerced cycle lengths are 28, 30, 29, 27, 31, 28, 29 and who
  has no usable age, BMI or menses value gets exactly one example: window
  28, 30, 29, 27, 31, 28, target 29, period-length feature 5, age feature 30, BMI
  feature 22.
\<close>

theorem scenario_seven_cycles:
  assumes "''LengthofCycle'' \<in> set (columns df)"
    and "cycle_lengths_of parse df = [28, 30, 29, 27, 31, 28, 29]"
    and "period_lengths_of parse df = None \<or> period_lengths_of parse df = Some []"
    and "first_value_of parse df ''Age'' = None"
    and "first_value_of parse df ''BMI'' = None"
  shows "prepare_features_per_person parse df 6 =
           Inr ([[28, 30, 29, 27, 31, 28, 173 / 6, sqrt 65 / 6, 27, 31, 5, 30, 22]], [29])"
proof -
  have "accepted_offsets [28, 30, 29, 27, 31, 28, 29 :: real] 6 = [0]"
    by (simp add: accepted_offsets_def accepted_def upt_conv_Cons)
  moreover have "period_feature (period_lengths_of parse df) 0 6 = 5"
    using assms(3) by (auto simp: period_feature_def)
  ultimately show ?thesis
    using assms(2,4,5)
    by (simp add: prepare_features_eq [OF assms(1)] feature_vector_def Let_def
        np_mean_def np_std_def power2_eq_square real_sqrt_divide)
qed

theorem scenario_seven_cycles_witness:
  "cycle_lengths_of unreadable seven_cycles = [28, 30, 29, 27, 31, 28, 29]
   \<and> period_lengths_of unreadable seven_cycles = Some []
   \<and> first_value_of unreadable seven_cycles ''Age'' = None
   \<and> first_value_of unreadable seven_cycles ''BMI'' = None
   \<and> prepare_features_per_person unreadable seven_cycles 6 =
       Inr ([[28, 30, 29, 27, 31, 28, 173 / 6, sqrt 65 / 6, 27, 31, 5, 30, 22]], [29])"
proof -
  have h1: "''LengthofCycle'' \<in> set (columns seven_cycles)"
    by (simp add: seven_cycles_def)
  have h2: "cycle_lengths_of unreadable seven_cycles = [28, 30, 29, 27, 31, 28, 29]"
    by (simp add: seven_cycles_def table_simps)
  have ps: "period_lengths_of unreadable seven_cycles = Some []"
    by (simp add: seven_cycles_def table_simps)
  then have h3: "period_lengths_of unreadable seven_cycles = None
                 \<or> period_lengths_of unreadable seven_cycles = Some []"
    by simp
  have h4: "first_value_of unreadable seven_cycles ''Age'' = None"
    by (simp add: seven_cycles_def table_simps)
  have h5: "first_value_of unreadable seven_cycles ''BMI'' = None"
    by (simp add: seven_cycles_def table_simps)
  from scenario_seven_cycles [OF h1 h2 h3 h4 h5] h2 ps h4 h5 show ?thesis
    by simp
qed

section \<open>Claims about the dataset assembler\<close>

lemma startswith_iff: "startswith s p \<longleftrightarrow> (\<exists>suf. s = p @ suf)"
  by (induction s p rule: startswith.induct) auto

lemma contains_iff: "contains s sub \<longleftrightarrow> (\<exists>pre suf. s = pre @ sub @ suf)"
proof (induction s)
  case Nil
  then show ?case by auto
next
  case (Cons c cs)
  show ?case
  proof
    assume "contains (c # cs) sub"
    then consider "startswith (c # cs) sub" | "contains cs sub" by auto
    then show "\<exists>pre suf. c # cs = pre @ sub @ suf"
    proof cases
      case 1
      then obtain suf where "c # cs = sub @ suf" by (auto simp: startswith_iff)
      then have "c # cs = [] @ sub @ suf" by simp
      then show ?thesis by blast
    next
      case 2
      then obtain pre suf where "cs = pre @ sub @ suf" using Cons.IH by auto
      then have "c # cs = (c # pre) @ sub @ suf" by simp
      then show ?thesis by blast
    qed
  next
    assume "\<exists>pre suf. c # cs = pre @ sub @ suf"
    then obtain pre suf where e: "c # cs = pre @ sub @ suf" by auto
    show "contains (c # cs) sub"
    proof (cases pre)
      case Nil
      with e have "startswith (c # cs) sub" by (auto simp: startswith_iff)
      then show ?thesis by simp
    next
      case (Cons a pre')
      with e have "cs = pre' @ sub @ suf" by simp
      then have "contains cs sub" using Cons.IH by blast
      then show ?thesis by simp
    qed
  qed
qed

lemma find_id_column_in_columns: "find_id_column df = Some c \<Longrightarrow> c \<in> set (columns df)"
  by (auto simp: find_id_column_def find_Some_iff split: option.splits)

text \<open>
  Claim C7. The identifier column is the first preferred name (in the order ClientID,
  ID, Client, Person, Subject) that is a column of the table; when no preferred name
  is a column, it is the first column of the table whose lower-cased name contains
  \<open>id\<close> or \<open>client\<close>; when there is no such column either, there is no identifier
  column and the dataset is what the feature builder makes of the whole table.
\<close>

theorem id_column_selection:
  "((\<exists>p \<in> set preferred_id_columns. p \<in> set (columns df)) \<longrightarrow>
      (\<exists>j < length preferred_id_columns.
          find_id_column df = Some (preferred_id_columns ! j)
          \<and> preferred_id_columns ! j \<in> set (columns df)
          \<and> (\<forall>k < j. preferred_id_columns ! k \<notin> set (columns df))))
   \<and> ((\<forall>p \<in> set preferred_id_columns. p \<notin> set (columns df))
        \<and> (\<exists>c \<in> set (columns df). mentions_id c) \<longrightarrow>
      (\<exists>j < length (columns df).
          find_id_column df = Some (columns df ! j)
          \<and> mentions_id (columns df ! j)
          \<and> (\<forall>k < j. \<not> mentions_id (columns df ! k))))
   \<and> ((\<forall>p \<in> set preferred_id_columns. p \<notin> set (columns df))
        \<and> (\<forall>c \<in> set (columns df). \<not> mentions_id c) \<longrightarrow>
      find_id_column df = None
      \<and> prepare_dataset parse df = prepare_features_per_person parse df 6)"
proof (intro conjI impI)
  assume "\<exists>p \<in> set preferred_id_columns. p \<in> set (columns df)"
  then obtain p where f: "find (\<lambda>col. col \<in> set (columns df)) preferred_id_columns = Some p"
    by (cases "find (\<lambda>col. col \<in> set (columns df)) preferred_id_columns")
       (auto simp: find_None_iff)
  then have fid: "find_id_column df = Some p"
    by (simp add: find_id_column_def)
  from f obtain j where "j < length preferred_id_columns" "p = preferred_id_columns ! j"
    "preferred_id_columns ! j \<in> set (columns df)"
    "\<forall>k < j. preferred_id_columns ! k \<notin> set (columns df)"
    by (auto simp: find_Some_iff)
  then show "\<exists>j < length preferred_id_columns.
          find_id_column df = Some (preferred_id_columns ! j)
          \<and> preferred_id_columns ! j \<in> set (columns df)
          \<and> (\<forall>k < j. preferred_id_columns ! k \<notin> set (columns df))"
    using fid by blast
next
  assume a: "(\<forall>p \<in> set preferred_id_columns. p \<notin> set (columns df))
        \<and> (\<exists>c \<in> set (columns df). mentions_id c)"
  then have n: "find (\<lambda>col. col \<in> set (columns df)) preferred_id_columns = None"
    by (simp add: find_None_iff)
  from a obtain c where "find mentions_id (columns df) = Some c"
    by (cases "find mentions_id (columns df)") (auto simp: find_None_iff)
  then have "\<exists>j < length (columns df). c = columns df ! j \<and> mentions_id (columns df ! j)
          \<and> (\<forall>k < j. \<not> mentions_id (columns df ! k))"
    by (auto simp: find_Some_iff)
  moreover have "find_id_column df = find mentions_id (columns df)"
    using n by (simp add: find_id_column_def mentions_id_def [abs_def])
  ultimately show "\<exists>j < length (columns df).
          find_id_column df = Some (columns df ! j)
          \<and> mentions_id (columns df ! j)
          \<and> (\<forall>k < j. \<not> mentions_id (columns df ! k))"
    using \<open>find mentions_id (columns df) = Some c\<close> by auto
next
  assume a: "(\<forall>p \<in> set preferred_id_columns. p \<notin> set (columns df))
        \<and> (\<forall>c \<in> set (columns df). \<not> mentions_id c)"
  then have n: "find (\<lambda>col. col \<in> set (columns df)) preferred_id_columns = None"
    by (simp add: find_None_iff)
  have "find_id_column df = find mentions_id (columns df)"
    using n by (simp add: find_id_column_def mentions_id_def [abs_def])
  then show "find_id_column df = None" using a by (simp add: find_None_iff)
  then show "prepare_dataset parse df = prepare_features_per_person parse df 6"
    by (simp add: prepare_dataset_def SEQUENCE_LENGTH_def)
qed

theorem id_column_selection_witness:
  "(\<exists>j < length preferred_id_columns.
       find_id_column ids_first = Some (preferred_id_columns ! j)
       \<and> preferred_id_columns ! j \<in> set (columns ids_first)
       \<and> (\<forall>k < j. preferred_id_columns ! k \<notin> set (columns ids_first)))
   \<and> find_id_column ids_first = Some ''ID''
   \<and> (\<exists>j < length (columns ids_substring).
         find_id_column ids_substring = Some (columns ids_substring ! j)
         \<and> mentions_id (columns ids_substring ! j)
         \<and> (\<forall>k < j. \<not> mentions_id (columns ids_substring ! k)))
   \<and> find_id_column ids_substring = Some ''PatientId''
   \<and> find_id_column unsorted_no_id = None
   \<and> prepare_dataset unreadable unsorted_no_id =
       prepare_features_per_person unreadable unsorted_no_id 6"
proof -
  have h1: "\<exists>p \<in> set preferred_id_columns. p \<in> set (columns ids_first)"
    by (simp add: preferred_id_columns_def ids_first_def)
  have h2: "(\<forall>p \<in> set preferred_id_columns. p \<notin> set (columns ids_substring))
            \<and> (\<exists>c \<in> set (columns ids_substring). mentions_id c)"
    by (simp add: preferred_id_columns_def ids_substring_def mentions_id_def
        lower_def lower_char_def)
  have h3: "(\<forall>p \<in> set preferred_id_columns. p \<notin> set (columns unsorted_no_id))
            \<and> (\<forall>c \<in> set (columns unsorted_no_id). \<not> mentions_id c)"
    by (simp add: preferred_id_columns_def unsorted_no_id_def mentions_id_def
        lower_def lower_char_def)
  have e1: "find_id_column ids_first = Some ''ID''"
    by (simp add: find_id_column_def ids_first_def preferred_id_columns_def)
  have e2: "find_id_column ids_substring = Some ''PatientId''"
    by (simp add: find_id_column_def ids_substring_def preferred_id_columns_def
        lower_def lower_char_def)
  note a = id_column_selection [of ids_first unreadable, THEN conjunct1, rule_format, OF h1]
  note b = id_column_selection [of ids_substring unreadable, THEN conjunct2, THEN conjunct1,
      rule_format, OF h2]
  note c = id_column_selection [of unsorted_no_id unreadable, THEN conjunct2, THEN conjunct2,
      rule_format, OF h3]
  from a e1 b e2 c show ?thesis by blast
qed

lemma columns_select_rows [simp]: "columns (select_rows df c p) = columns df"
  by (simp add: select_rows_def)


lemma prepare_features_parallel:
  "prepare_features_per_person parse df 6 = Inr (X, y) \<Longrightarrow> length X = length y"
  by (cases "''LengthofCycle'' \<in> set (columns df)")
     (auto simp: prepare_features_eq prepare_features_absent)


lemma unique_from_seen: "\<forall>x \<in> set xs. x \<in> set seen \<Longrightarrow> unique_from seen xs = []"
  by (induction xs) auto

lemma unique_constant: "xs \<noteq> [] \<Longrightarrow> \<forall>x \<in> set xs. x = v \<Longrightarrow> unique xs = [v]"
  by (cases xs) (auto simp: unique_def unique_from_seen)

lemma cell_eq_refl: "v \<noteq> NA \<Longrightarrow> cell_eq v v"
  by (cases v) auto

lemma select_rows_all:
  assumes "\<forall>r \<in> set (rows df). get_cell (columns df) r c = v" and "v \<noteq> NA"
  shows "select_rows df c v = df"
proof -
  have "filter (\<lambda>r. cell_eq (get_cell (columns df) r c) v) (rows df) = rows df"
    using assms by (simp add: filter_id_conv cell_eq_refl)
  then show ?thesis by (simp add: select_rows_def)
qed

text \<open>
  Claim C10. When no identifier column is found, the dataset is what the feature
  builder makes of the table as it stands, rows in file order, whether or not there is
  a CycleNumber column. When an identifier column is found, all rows belong to one
  person and there is a CycleNumber column, the dataset is what the feature builder
  makes of the table sorted by CycleNumber.
\<close>

theorem single_entity_keeps_file_order:
  "(find_id_column df = None \<longrightarrow>
      prepare_dataset parse df = prepare_features_per_person parse df 6)
   \<and> (\<forall>c v sorted_df.
        find_id_column df = Some c \<and> rows df \<noteq> [] \<and> v \<noteq> NA
        \<and> (\<forall>r \<in> set (rows df). get_cell (columns df) r c = v)
        \<and> ''CycleNumber'' \<in> set (columns df)
        \<and> sort_values df ''CycleNumber'' = Inr sorted_df \<longrightarrow>
        prepare_dataset parse df = prepare_features_per_person parse sorted_df 6)"
proof (intro conjI impI allI)
  assume "find_id_column df = None"
  then show "prepare_dataset parse df = prepare_features_per_person parse df 6"
    by (simp add: prepare_dataset_def SEQUENCE_LENGTH_def)
next
  fix c v sorted_df
  assume a: "find_id_column df = Some c \<and> rows df \<noteq> [] \<and> v \<noteq> NA
        \<and> (\<forall>r \<in> set (rows df). get_cell (columns df) r c = v)
        \<and> ''CycleNumber'' \<in> set (columns df)
        \<and> sort_values df ''CycleNumber'' = Inr sorted_df"
  then have c: "c \<in> set (columns df)" by (simp add: find_id_column_in_columns)
  have u: "unique (series df c) = [v]"
    using a by (intro unique_constant) (auto simp: series_def)
  have s: "select_rows df c v = df"
    using a by (intro select_rows_all) auto
  show "prepare_dataset parse df = prepare_features_per_person parse sorted_df 6"
  proof (cases "prepare_features_per_person parse sorted_df 6")
    case (Inl e)
    then show ?thesis
      using a c u s
      by (simp add: prepare_dataset_def getitem_present SEQUENCE_LENGTH_def)
  next
    case (Inr r)
    then obtain X y where r: "r = (X, y)" by (cases r)
    with Inr have "length X = length y" by (simp add: prepare_features_parallel)
    then show ?thesis
      using a c u s Inr r
      by (auto simp: prepare_dataset_def getitem_present SEQUENCE_LENGTH_def)
  qed
qed

lemma sort_unsorted_with_id: "sort_values unsorted_with_id ''CycleNumber'' = Inr sorted_with_id"
  by (simp add: sort_values_def getitem_def series_def get_cell_def unsorted_with_id_def
      sorted_with_id_def is_num_def is_str_def)

theorem single_entity_keeps_file_order_witness:
  "find_id_column unsorted_no_id = None
   \<and> prepare_dataset unreadable unsorted_no_id =
       Inr ([[29, 28, 31, 27, 29, 30, 29, sqrt (5 / 3), 27, 31, 5, 30, 22]], [28])
   \<and> find_id_column unsorted_with_id = Some ''ClientID''
   \<and> prepare_dataset unreadable unsorted_with_id =
       Inr ([[28, 30, 29, 27, 31, 28, 173 / 6, sqrt (65 / 36), 27, 31, 5, 30, 22]], [29])"
proof -
  have n: "find_id_column unsorted_no_id = None"
    by (simp add: find_id_column_def unsorted_no_id_def preferred_id_columns_def
        lower_def lower_char_def)
  have f1: "prepare_features_per_person unreadable unsorted_no_id 6 =
       Inr ([[29, 28, 31, 27, 29, 30, 29, sqrt (5 / 3), 27, 31, 5, 30, 22]], [28])"
    by (simp add: unsorted_no_id_def eval_simps)
  have i: "find_id_column unsorted_with_id = Some ''ClientID''"
    by (simp add: find_id_column_def unsorted_with_id_def preferred_id_columns_def)
  have f2: "prepare_features_per_person unreadable sorted_with_id 6 =
       Inr ([[28, 30, 29, 27, 31, 28, 173 / 6, sqrt (65 / 36), 27, 31, 5, 30, 22]], [29])"
    by (simp add: sorted_with_id_def eval_simps)
  have h: "find_id_column unsorted_with_id = Some ''ClientID'' \<and> rows unsorted_with_id \<noteq> []
        \<and> Num 1 \<noteq> NA
        \<and> (\<forall>r \<in> set (rows unsorted_with_id).
              get_cell (columns unsorted_with_id) r ''ClientID'' = Num 1)
        \<and> ''CycleNumber'' \<in> set (columns unsorted_with_id)
        \<and> sort_values unsorted_with_id ''CycleNumber'' = Inr sorted_with_id"
    using i sort_unsorted_with_id by (simp add: unsorted_with_id_def get_cell_def)
  note t = single_entity_keeps_file_order [of unsorted_no_id unreadable]
    single_entity_keeps_file_order [of unsorted_with_id unreadable]
  from t(1) n f1 have a: "prepare_dataset unreadable unsorted_no_id =
       Inr ([[29, 28, 31, 27, 29, 30, 29, sqrt (5 / 3), 27, 31, 5, 30, 22]], [28])"
    by simp
  from t(2) h f2 have b: "prepare_dataset unreadable unsorted_with_id =
       Inr ([[28, 30, 29, 27, 31, 28, 173 / 6, sqrt (65 / 36), 27, 31, 5, 30, 22]], [29])"
    by metis
  from n a i b show ?thesis by simp
qed



lemma sort_values_total:
  assumes "name \<in> set (columns df)"
    and "\<not> (list_ex is_num (series df name) \<and> list_ex is_str (series df name))"
  shows "\<exists>sdf. sort_values df name = Inr sdf"
  using assms by (auto simp: sort_values_def getitem_def)






section \<open>Claims about the scaling\<close>

lemma fit_scale_nonzero: "fit X = Inr scaler \<Longrightarrow> 0 \<notin> set (scaler_scale scaler)"
  by (auto simp: fit_def handle_zeros_in_scale_def split: if_splits)

lemma fit_lengths: "fit X = Inr scaler \<Longrightarrow> length (scaler_scale scaler) = length (scaler_mean scaler)"
  by (auto simp: fit_def split: if_splits)

lemma round_trip_lists:
  "length ss = length ms \<Longrightarrow> length x = length ms \<Longrightarrow> 0 \<notin> set ss \<Longrightarrow>
     map (\<lambda>(v, m, s). v * s + m)
       (zip (map (\<lambda>(v, m, s). (v - m) / s) (zip x (zip ms ss))) (zip ms ss)) = (x :: real list)"
proof (induction ss ms arbitrary: x rule: list_induct2)
  case Nil
  then show ?case by simp
next
  case (Cons s ss m ms)
  then obtain v x' where "x = v # x'" by (cases x) auto
  with Cons show ?case by auto
qed

lemma foldr_max_length:
  "X \<noteq> [] \<Longrightarrow> \<forall>r \<in> set X. length r = n \<Longrightarrow> foldr (\<lambda>xs. max (length xs)) X 0 = n"
proof (induction X)
  case Nil
  then show ?case by simp
next
  case (Cons a X)
  show ?case
  proof (cases "X = []")
    case True
    with Cons.prems show ?thesis by simp
  next
    case False
    with Cons show ?thesis by simp
  qed
qed

lemma length_transpose_rect:
  assumes "X \<noteq> []" and "\<forall>r \<in> set X. length r = n"
  shows "length (transpose X) = n"
  using assms by (simp add: length_transpose foldr_max_length)

text \<open>
  Claim C8. The scaler is fitted on the training partition alone, and each of the
  three partitions is transformed row by row with that one scaler; when the training
  rows have 13 features, so have the fitted mean and scale; on a vector as long as
  the fitted mean the transform is \<open>(x - mean) / scale\<close> per feature, and
  \<open>x * scale + mean\<close> after it gives the vector back (over the reals).
\<close>

theorem standardization_round_trip:
  assumes "scale_features X_train X_val X_test = Inr (scaler, Xtr, Xva, Xte)"
  shows "fit X_train = Inr scaler
       \<and> Xtr = map (transform_row scaler) X_train
       \<and> Xva = map (transform_row scaler) X_val
       \<and> Xte = map (transform_row scaler) X_test
       \<and> ((\<forall>r \<in> set X_train. length r = 13) \<longrightarrow>
            length (scaler_mean scaler) = 13 \<and> length (scaler_scale scaler) = 13)
       \<and> (\<forall>x. length x = length (scaler_mean scaler) \<longrightarrow>
            (\<forall>j < length x. transform_row scaler x ! j
                               = (x ! j - scaler_mean scaler ! j) / scaler_scale scaler ! j)
            \<and> spec_inverse scaler (transform_row scaler x) = x)"
proof -
  from assms have f: "fit X_train = Inr scaler"
    by (cases "fit X_train") (auto simp: scale_features_def bindE_def split: sum.splits)
  then have ne: "X_train \<noteq> []" by (auto simp: fit_def split: if_splits)
  from assms f have t: "transform scaler X_train = Inr Xtr" "transform scaler X_val = Inr Xva"
    "transform scaler X_test = Inr Xte"
    by (auto simp: scale_features_def bindE_def split: sum.splits)
  then have m: "Xtr = map (transform_row scaler) X_train" "Xva = map (transform_row scaler) X_val"
    "Xte = map (transform_row scaler) X_test"
    by (auto simp: transform_def split: if_splits)
  have l: "length (scaler_scale scaler) = length (scaler_mean scaler)"
    using f by (rule fit_lengths)
  have nz: "0 \<notin> set (scaler_scale scaler)" using f by (rule fit_scale_nonzero)
  have w: "length (scaler_mean scaler) = 13 \<and> length (scaler_scale scaler) = 13"
    if "\<forall>r \<in> set X_train. length r = 13"
    using f ne that by (auto simp: fit_def length_transpose_rect)
  have rt: "spec_inverse scaler (transform_row scaler x) = x"
    if "length x = length (scaler_mean scaler)" for x
    using round_trip_lists [OF l that nz] by (simp add: spec_inverse_def transform_row_def)
  have nth: "transform_row scaler x ! j
               = (x ! j - scaler_mean scaler ! j) / scaler_scale scaler ! j"
    if "length x = length (scaler_mean scaler)" "j < length x" for x j
    using that l by (simp add: transform_row_def)
  show ?thesis using f m w rt nth by blast
qed

lemma transpose_train: "transpose train_rows =
   [[28, 30], [30, 30], [29, 29], [27, 27], [31, 31], [28, 28], [29, 29], [1, 1],
    [27, 27], [31, 31], [5, 3], [30, 30], [22, 24]]"
  by (simp add: train_rows_def)

lemma fit_train: "fit train_rows =
   Inr \<lparr>scaler_mean = [29, 30, 29, 27, 31, 28, 29, 1, 27, 31, 4, 30, 23],
        scaler_scale = [1, 1, 1, 1, 1, 1, 1, 1, 1, 1, 1, 1, 1]\<rparr>"
  by (simp add: fit_def transpose_train)
     (simp add: train_rows_def np_mean_def np_std_def handle_zeros_in_scale_def)

theorem standardization_round_trip_witness:
  "scale_features train_rows val_rows test_rows =
     Inr (\<lparr>scaler_mean = [29, 30, 29, 27, 31, 28, 29, 1, 27, 31, 4, 30, 23],
           scaler_scale = [1, 1, 1, 1, 1, 1, 1, 1, 1, 1, 1, 1, 1]\<rparr>,
          [[-1, 0, 0, 0, 0, 0, 0, 0, 0, 0, 1, 0, -1], [1, 0, 0, 0, 0, 0, 0, 0, 0, 0, -1, 0, 1]],
          [[-2, 0, 0, 0, 0, 0, 0, 0, 0, 0, 1, 10, -3]],
          [[2, 0, 0, 0, 0, 0, 0, 0, 0, 0, 2, -5, 2]])
   \<and> spec_inverse \<lparr>scaler_mean = [29, 30, 29, 27, 31, 28, 29, 1, 27, 31, 4, 30, 23],
                   scaler_scale = [1, 1, 1, 1, 1, 1, 1, 1, 1, 1, 1, 1, 1]\<rparr>
        [-2, 0, 0, 0, 0, 0, 0, 0, 0, 0, 1, 10, -3]
       = [27, 30, 29, 27, 31, 28, 29, 1, 27, 31, 5, 40, 20]"
proof -
  let ?sc = "\<lparr>scaler_mean = [29, 30, 29, 27, 31, 28, 29, 1, 27, 31, 4, 30, 23 :: real],
              scaler_scale = [1, 1, 1, 1, 1, 1, 1, 1, 1, 1, 1, 1, 1 :: real]\<rparr>"
  let ?x = "[27, 30, 29, 27, 31, 28, 29, 1, 27, 31, 5, 40, 20 :: real]"
  have s: "scale_features train_rows val_rows test_rows =
     Inr (?sc,
          [[-1, 0, 0, 0, 0, 0, 0, 0, 0, 0, 1, 0, -1], [1, 0, 0, 0, 0, 0, 0, 0, 0, 0, -1, 0, 1]],
          [[-2, 0, 0, 0, 0, 0, 0, 0, 0, 0, 1, 10, -3]],
          [[2, 0, 0, 0, 0, 0, 0, 0, 0, 0, 2, -5, 2]])"
    by (simp add: scale_features_def fit_train)
       (simp add: transform_def transform_row_def train_rows_def val_rows_def test_rows_def)
  have t: "transform_row ?sc ?x = [-2, 0, 0, 0, 0, 0, 0, 0, 0, 0, 1, 10, -3]"
    by (simp add: transform_row_def)
  have l: "length ?x = length (scaler_mean ?sc)" by simp
  from standardization_round_trip [OF s] l
  have "spec_inverse ?sc (transform_row ?sc ?x) = ?x" by blast
  with s t show ?thesis by simp
qed

section \<open>Claims about the pipeline\<close>

subsection \<open>Width of the feature vectors\<close>





subsection \<open>Sizes of the partitions\<close>






subsection \<open>The run on a loaded table\<close>










end
